theory Spec2Isabelle
  imports Complex_Main
begin

section \<open>PaperIQ text-analysis core (backend\_main.py)\<close>

text \<open>
  The embedding follows \<^verbatim>\<open>src/backend_main.py\<close> function by function.

  Modelling conventions.
  \<^item> A Python \<^verbatim>\<open>str\<close> is a \<open>string\<close>; one \<open>char\<close> is one code point, so the
    texts covered are those whose code points are below 256 (Latin-1). The character
    classes below are the ones Python's \<^verbatim>\<open>str.isspace\<close>, the \<^verbatim>\<open>re\<close> classes
    \<^verbatim>\<open>\s\<close> and \<^verbatim>\<open>\w\<close> and \<^verbatim>\<open>str.lower\<close> have on that range.
  \<^item> A Python \<^verbatim>\<open>float\<close> is an exact rational (\<open>rat\<close>): rounding error of the
    binary floating-point operations is not modelled. Python's \<^verbatim>\<open>int\<close> is \<open>int\<close>.
  \<^item> The \<^verbatim>\<open>features\<close> and score dictionaries have a fixed key set and are records.
  \<^item> \<^verbatim>\<open>TextBlob(...).sentiment\<close> is an external call that may raise; it is a
    parameter \<open>orc\<close> returning \<open>None\<close> where the call raises. The functions that call
    it also return the list of spans they called it on, in call order.
\<close>

subsection \<open>Character classes\<close>

definition is_space :: "char \<Rightarrow> bool" where
  "is_space c =
     (let n = (of_char c :: nat)
      in (9 \<le> n \<and> n \<le> 13) \<or> (28 \<le> n \<and> n \<le> 32) \<or> n = 133 \<or> n = 160)"

text \<open>The class \<^verbatim>\<open>\w\<close> of a \<^verbatim>\<open>str\<close> pattern: alphanumeric code points and the underscore.\<close>

definition is_word_char :: "char \<Rightarrow> bool" where
  "is_word_char c =
     (let n = (of_char c :: nat)
      in (48 \<le> n \<and> n \<le> 57) \<or> (65 \<le> n \<and> n \<le> 90) \<or> n = 95 \<or> (97 \<le> n \<and> n \<le> 122)
         \<or> n = 170 \<or> n = 178 \<or> n = 179 \<or> n = 181 \<or> n = 185 \<or> n = 186
         \<or> (188 \<le> n \<and> n \<le> 190) \<or> (192 \<le> n \<and> n \<le> 214)
         \<or> (216 \<le> n \<and> n \<le> 246) \<or> (248 \<le> n \<and> n \<le> 255))"

text \<open>The class \<^verbatim>\<open>[\w\']\<close>.\<close>

definition is_token_char :: "char \<Rightarrow> bool" where
  "is_token_char c = (is_word_char c \<or> c = CHR 0x27)"

text \<open>The class \<^verbatim>\<open>[.!?]\<close>.\<close>

definition is_end_punct :: "char \<Rightarrow> bool" where
  "is_end_punct c = (c = CHR ''.'' \<or> c = CHR ''!'' \<or> c = CHR ''?'')"

definition lower_char :: "char \<Rightarrow> char" where
  "lower_char c =
     (let n = (of_char c :: nat)
      in if (65 \<le> n \<and> n \<le> 90) \<or> (192 \<le> n \<and> n \<le> 222 \<and> n \<noteq> 215)
         then char_of (n + 32) else c)"

definition lower :: "string \<Rightarrow> string" where
  "lower s = map lower_char s"

definition strip :: "string \<Rightarrow> string" where
  "strip s = rev (dropWhile is_space (rev (dropWhile is_space s)))"

subsection \<open>Segmenter\<close>

text \<open>
  \<^verbatim>\<open>re.split(r'(?<=[.!?])\s+', t)\<close>: a match starts at a whitespace character that directly
  follows one of \<^verbatim>\<open>.!?\<close> and takes the whole whitespace run; the pieces between the
  matches are returned. \<open>after\<close> says whether the previous character is in \<^verbatim>\<open>[.!?]\<close>,
  \<open>cur\<close> is the current piece, reversed.
\<close>

function re_split_sentences :: "bool \<Rightarrow> string \<Rightarrow> string \<Rightarrow> string list" where
  "re_split_sentences after cur [] = [rev cur]"
| "re_split_sentences after cur (c # cs) =
     (if after \<and> is_space c
      then rev cur # re_split_sentences False [] (dropWhile is_space cs)
      else re_split_sentences (is_end_punct c) (c # cur) cs)"
  by pat_completeness auto
termination
  by (relation "measure (\<lambda>(after, cur, s). length s)")
     (auto intro: le_imp_less_Suc length_dropWhile_le)

text \<open>\<^verbatim>\<open>s.replace('\\n', ' ')\<close>: the pattern is the two characters backslash and \<^verbatim>\<open>n\<close>.\<close>

fun replace_backslash_n :: "string \<Rightarrow> string" where
  "replace_backslash_n (a # b # cs) =
     (if a = CHR 0x5C \<and> b = CHR ''n'' then CHR '' '' # replace_backslash_n cs
      else a # replace_backslash_n (b # cs))"
| "replace_backslash_n cs = cs"

definition sentence_split :: "string \<Rightarrow> string list" where
  "sentence_split text =
     (let sentences = re_split_sentences False [] (strip text)
      in map (\<lambda>s. strip (replace_backslash_n s))
             (filter (\<lambda>s. length (strip s) > 0) sentences))"

text \<open>
  \<^verbatim>\<open>re.findall(r'\b[\w\']+\b', t)\<close>. \<open>backtrack\<close> is the greedy \<^verbatim>\<open>[\w\']+\<close> giving
  characters back until the position after the last one kept is a word boundary: its
  first argument is the consumed run, reversed, its second says whether the character
  after the run is a word character.
\<close>

fun backtrack :: "string \<Rightarrow> bool \<Rightarrow> string option" where
  "backtrack [] nxt = None"
| "backtrack (c # rcs) nxt =
     (if is_word_char c \<noteq> nxt then Some (rev (c # rcs))
      else backtrack rcs (is_word_char c))"

definition next_is_word :: "string \<Rightarrow> bool" where
  "next_is_word s = (case s of [] \<Rightarrow> False | d # _ \<Rightarrow> is_word_char d)"

function findall_words :: "bool \<Rightarrow> string \<Rightarrow> string list" where
  "findall_words prev [] = []"
| "findall_words prev (c # cs) =
     (if prev \<noteq> is_word_char c
      then (case backtrack (rev (takeWhile is_token_char (c # cs)))
                   (next_is_word (dropWhile is_token_char (c # cs))) of
              Some m \<Rightarrow> m # findall_words (is_word_char (last m)) (drop (length m) (c # cs))
            | None \<Rightarrow> findall_words (is_word_char c) cs)
      else findall_words (is_word_char c) cs)"
  by pat_completeness auto
termination
proof -
  have len: "0 < length m \<and> length m \<le> length r" if "backtrack r nxt = Some m" for r nxt m
    using that by (induction r nxt rule: backtrack.induct) (auto split: if_splits)
  show ?thesis
    by (relation "measure (\<lambda>(prev, s). length s)") (auto dest!: len)
qed

definition tokenize_words :: "string \<Rightarrow> string list" where
  "tokenize_words text = findall_words False (lower text)"

subsection \<open>Feature extractor\<close>

definition type_token_ratio :: "string list \<Rightarrow> rat" where
  "type_token_ratio words =
     (if words = [] then 0 else of_nat (card (set words)) / of_nat (length words))"

definition avg_word_length :: "string list \<Rightarrow> rat" where
  "avg_word_length words =
     (if words = [] then 0 else of_nat (sum_list (map length words)) / of_nat (length words))"

definition avg_sentence_length :: "string list \<Rightarrow> rat" where
  "avg_sentence_length sentences =
     (if sentences = [] then 0
      else let lengths = map (\<lambda>s. length (tokenize_words s)) sentences
           in of_nat (sum_list lengths) / of_nat (length lengths))"

definition lexical_sophistication :: "string list \<Rightarrow> rat" where
  "lexical_sophistication words =
     (if words = [] then 0
      else let long_words = length (filter (\<lambda>w. length w > 6) words)
           in of_nat long_words / of_nat (length words))"

definition coherence_score :: "string list \<Rightarrow> rat" where
  "coherence_score sentences =
     (if sentences = [] then 0
      else let lens = map (\<lambda>s. length (tokenize_words s)) sentences;
               mean = of_nat (sum_list lens) / of_nat (length lens);
               var = sum_list (map (\<lambda>l. (of_nat l - mean)\<^sup>2) lens) / of_nat (length lens)
           in max 0 (1 - var / (mean + 1)\<^sup>2))"

definition causal_markers :: "string list" where
  "causal_markers =
     [''because'', ''therefore'', ''thus'', ''hence'', ''consequently'', ''so'']"

text \<open>
  \<^verbatim>\<open>re.search(r'\b(because|therefore|thus|hence|consequently|so)\b', t)\<close>: at some
  position with a word boundary one of the alternatives is a prefix of the rest and
  is followed by a word boundary. \<open>prev\<close> says whether the previous character is a
  word character.
\<close>

fun causal_search :: "bool \<Rightarrow> string \<Rightarrow> bool" where
  "causal_search prev [] = False"
| "causal_search prev (c # cs) =
     ((prev \<noteq> is_word_char c \<and>
       list_ex (\<lambda>w. take (length w) (c # cs) = w \<and>
                     is_word_char (last w) \<noteq> next_is_word (drop (length w) (c # cs)))
               causal_markers)
      \<or> causal_search (is_word_char c) cs)"

definition modal_hedges :: "string list" where
  "modal_hedges = [''may'', ''might'', ''could'', ''should'', ''would'']"

definition reasoning_proxy :: "string list \<Rightarrow> string list \<Rightarrow> rat" where
  "reasoning_proxy sentences words =
     (let causal = length (filter (\<lambda>s. causal_search False (lower s)) sentences);
          modal = length (filter (\<lambda>w. w \<in> set modal_hedges) words);
          score = of_nat causal / (of_nat (length sentences) + 1)
                  - of_nat modal / (of_nat (length words) + 1)
      in max 0 (min 1 (0.5 + score)))"

text \<open>
  The \<^verbatim>\<open>features\<close> dictionary. The key \<^verbatim>\<open>'reasoning_proxy'\<close> is the field
  \<open>reasoning_proxy_feat\<close>, since the function has the name.
\<close>

record features =
  word_count :: int
  sentence_count :: int
  avg_sentence_len :: rat
  avg_word_len :: rat
  ttr :: rat
  lex_soph :: rat
  coherence :: rat
  reasoning_proxy_feat :: rat
  sentiment_polarity :: rat
  sentiment_subjectivity :: rat

text \<open>One entry of \<^verbatim>\<open>sentence_sentiments\<close> (the keys \<^verbatim>\<open>text, polarity, subjectivity\<close>).\<close>

record sentiment_info =
  si_text :: string
  si_polarity :: rat
  si_subjectivity :: rat

datatype error = TextTooShort | OracleRaised

type_synonym sentiment_oracle = "string \<Rightarrow> (rat \<times> rat) option"

text \<open>
  The loop over \<^verbatim>\<open>sentences\<close> in \<^verbatim>\<open>compute_features\<close>. The first component is the
  list of spans the oracle was called on; an exception of the oracle ends the loop.
\<close>

fun sentiment_loop :: "sentiment_oracle \<Rightarrow> string list \<Rightarrow> string list \<times> (error + sentiment_info list)" where
  "sentiment_loop orc [] = ([], Inr [])"
| "sentiment_loop orc (s # ss) =
     (case orc s of
        None \<Rightarrow> ([s], Inl OracleRaised)
      | Some (p, q) \<Rightarrow>
          (case sentiment_loop orc ss of
             (calls, Inl e) \<Rightarrow> (s # calls, Inl e)
           | (calls, Inr infos) \<Rightarrow>
               (s # calls, Inr (\<lparr>si_text = s, si_polarity = p, si_subjectivity = q\<rparr> # infos))))"

definition compute_features ::
  "sentiment_oracle \<Rightarrow> string \<Rightarrow> string list \<times> (error + features \<times> string list \<times> string list \<times> sentiment_info list)" where
  "compute_features orc text =
     (let sentences = sentence_split text;
          words = tokenize_words text
      in case orc text of
           None \<Rightarrow> ([text], Inl OracleRaised)
         | Some (pol, subj) \<Rightarrow>
             (case sentiment_loop orc sentences of
                (calls, Inl e) \<Rightarrow> (text # calls, Inl e)
              | (calls, Inr infos) \<Rightarrow>
                  (text # calls,
                   Inr (\<lparr>word_count = int (length words),
                         sentence_count = int (length sentences),
                         avg_sentence_len = avg_sentence_length sentences,
                         avg_word_len = avg_word_length words,
                         ttr = type_token_ratio words,
                         lex_soph = lexical_sophistication words,
                         coherence = coherence_score sentences,
                         reasoning_proxy_feat = reasoning_proxy sentences words,
                         sentiment_polarity = pol,
                         sentiment_subjectivity = subj\<rparr>,
                        sentences, words, infos))))"

subsection \<open>Scorer\<close>

text \<open>
  \<^verbatim>\<open>round(x, 2)\<close>: to the nearest multiple of 1/100, a tie going to the even one.
\<close>

definition round_half_even :: "rat \<Rightarrow> int" where
  "round_half_even x =
     (let f = \<lfloor>x\<rfloor>; d = x - of_int f
      in if d < 1 / 2 then f else if 1 / 2 < d then f + 1
         else if even f then f else f + 1)"

definition py_round2 :: "rat \<Rightarrow> rat" where
  "py_round2 x = of_int (round_half_even (x * 100)) / 100"

record scores =
  sc_language :: rat
  sc_coherence :: rat
  sc_reasoning :: rat
  sc_composite :: rat

definition score_paper :: "features \<Rightarrow> scores" where
  "score_paper f =
     (let lang = 100 * (0.2 * min 1 (ttr f * 1.5) + 0.3 * min 1 (lex_soph f * 3)
                        + 0.5 * min 1 (avg_word_len f / 5));
          coh = 100 * coherence f;
          reason = 100 * reasoning_proxy_feat f;
          composite = py_round2 (0.4 * lang + 0.3 * coh + 0.3 * reason)
      in \<lparr>sc_language = py_round2 lang,
          sc_coherence = py_round2 coh,
          sc_reasoning = py_round2 reason,
          sc_composite = composite\<rparr>)"

subsection \<open>Sentence flagger\<close>

text \<open>The body of the loop of \<^verbatim>\<open>sentence_contributions\<close>: the pair appended for \<open>s\<close>.\<close>

definition contribution :: "features \<Rightarrow> string \<Rightarrow> string \<times> rat" where
  "contribution overall_features s =
     (let words = tokenize_words s
      in if words = [] then (s, 0)
         else let ttr_s = of_nat (card (set words)) / of_nat (length words);
                  long = (if of_nat (length words) > max 40 (avg_sentence_len overall_features * 2)
                          then 1 else 0);
                  causal = (if causal_search False (lower s) then 1 else 0)
              in (s, long * 1.2 + (1 - ttr_s) * 1.0 + (1 - causal) * 0.5))"

text \<open>
  \<^verbatim>\<open>list.sort(key=lambda x: x[1], reverse=True)\<close>: Python's sort is stable, also with
  \<^verbatim>\<open>reverse=True\<close> (elements with equal keys keep their order). This is the stable
  insertion sort of the library on the negated key.
\<close>

definition sort_penalty_desc :: "(string \<times> rat) list \<Rightarrow> (string \<times> rat) list" where
  "sort_penalty_desc xs = sort_key (\<lambda>x. - snd x) xs"

definition sentence_contributions :: "string list \<Rightarrow> features \<Rightarrow> (string \<times> rat) list" where
  "sentence_contributions sentences overall_features =
     sort_penalty_desc (map (contribution overall_features) sentences)"

subsection \<open>Entry point\<close>

record response =
  r_composite :: rat
  r_language :: rat
  r_coherence :: rat
  r_reasoning :: rat
  diagnostics :: features
  top_flagged_sentences :: "string list"
  sentiment_analysis :: "sentiment_info list"

text \<open>
  \<^verbatim>\<open>analyze\<close>: the \<^verbatim>\<open>HTTPException\<close> of status 400 is \<open>TextTooShort\<close>; an exception
  of the oracle is not caught and leaves \<^verbatim>\<open>analyze\<close> as it is (\<open>OracleRaised\<close>).
\<close>

definition analyze :: "sentiment_oracle \<Rightarrow> string \<Rightarrow> string list \<times> (error + response)" where
  "analyze orc text =
     (if length (strip text) < 20 then ([], Inl TextTooShort)
      else case compute_features orc text of
             (calls, Inl e) \<Rightarrow> (calls, Inl e)
           | (calls, Inr (f, sentences, words, sentence_sentiments)) \<Rightarrow>
               (let scores = score_paper f;
                    contribs = sentence_contributions sentences f;
                    top_flagged = map fst (take 5 contribs)
                in (calls,
                    Inr \<lparr>r_composite = sc_composite scores,
                         r_language = sc_language scores,
                         r_coherence = sc_coherence scores,
                         r_reasoning = sc_reasoning scores,
                         diagnostics = f,
                         top_flagged_sentences = top_flagged,
                         sentiment_analysis = sentence_sentiments\<rparr>)))"

section \<open>Properties\<close>

subsection \<open>Segmenter output\<close>

text \<open>
  Claim C4 (every sentence returned by \<open>sentence_split\<close> is non-empty and has no leading
  or trailing whitespace; candidates that become empty after the backslash-n
  replacement and trimming are dropped). The filter \<^verbatim>\<open>len(s.strip())>0\<close> tests the
  piece before the replacement, so a piece made only of backslash-n sequences passes
  the filter and is returned as the empty string: the text below, whose last piece is
  the two characters backslash and n, yields an empty second sentence.
\<close>

theorem sentence_split_returns_empty_sentence:
  "sentence_split (''This is a sentence here. '' @ [CHR 0x5C, CHR ''n''])
     = [''This is a sentence here.'', []]"
  by code_simp

subsection \<open>Causal markers\<close>

text \<open>
  Claim C7: the reasoning proxy of the text "The result failed. Therefore the hypothesis
  is rejected." is strictly greater than the one of the same text with "Therefore"
  removed. The word is removed either alone (two spaces remain) or with the space
  after it; the first text scores 5/6, both shortened texts score 1/2.
\<close>

theorem causal_marker_scenario:
  "reasoning_proxy (sentence_split ''The result failed.  the hypothesis is rejected.'')
                   (tokenize_words ''The result failed.  the hypothesis is rejected.'')
     < reasoning_proxy (sentence_split ''The result failed. Therefore the hypothesis is rejected.'')
                       (tokenize_words ''The result failed. Therefore the hypothesis is rejected.'')
   \<and> reasoning_proxy (sentence_split ''The result failed. the hypothesis is rejected.'')
                     (tokenize_words ''The result failed. the hypothesis is rejected.'')
     < reasoning_proxy (sentence_split ''The result failed. Therefore the hypothesis is rejected.'')
                       (tokenize_words ''The result failed. Therefore the hypothesis is rejected.'')"
proof -
  have full:
    "reasoning_proxy (sentence_split ''The result failed. Therefore the hypothesis is rejected.'')
       (tokenize_words ''The result failed. Therefore the hypothesis is rejected.'') = 5 / 6"
    by code_simp
  have cut2:
    "reasoning_proxy (sentence_split ''The result failed.  the hypothesis is rejected.'')
       (tokenize_words ''The result failed.  the hypothesis is rejected.'') = 1 / 2"
    by code_simp
  have cut1:
    "reasoning_proxy (sentence_split ''The result failed. the hypothesis is rejected.'')
       (tokenize_words ''The result failed. the hypothesis is rejected.'') = 1 / 2"
    by code_simp
  show ?thesis
    unfolding full cut1 cut2 by simp
qed

subsection \<open>Ranges of the features and of rounding\<close>

lemma type_token_ratio_range: "0 \<le> type_token_ratio ws \<and> type_token_ratio ws \<le> 1"
  by (simp add: type_token_ratio_def card_length divide_le_eq_1)

lemma type_token_ratio_pos: "ws \<noteq> [] \<Longrightarrow> 0 < type_token_ratio ws"
  by (simp add: type_token_ratio_def card_gt_0_iff)

lemma lexical_sophistication_range:
  "0 \<le> lexical_sophistication ws \<and> lexical_sophistication ws \<le> 1"
  by (simp add: lexical_sophistication_def Let_def divide_le_eq_1)

lemma avg_word_length_nonneg: "0 \<le> avg_word_length ws"
  by (simp add: avg_word_length_def)

lemma avg_sentence_length_nonneg: "0 \<le> avg_sentence_length ss"
  by (simp add: avg_sentence_length_def Let_def)

lemma sum_list_squares_nonneg: "0 \<le> sum_list (map (\<lambda>l. (of_nat l - m)\<^sup>2) ls :: rat list)"
  by (induction ls) auto

lemma coherence_score_range: "0 \<le> coherence_score ss \<and> coherence_score ss \<le> 1"
proof (cases "ss = []")
  case True
  then show ?thesis by (simp add: coherence_score_def)
next
  case False
  define lens where "lens = map (\<lambda>s. length (tokenize_words s)) ss"
  define mean :: rat where "mean = of_nat (sum_list lens) / of_nat (length lens)"
  define var where "var = sum_list (map (\<lambda>l. (of_nat l - mean)\<^sup>2) lens) / of_nat (length lens)"
  have "0 \<le> var"
    unfolding var_def by (rule divide_nonneg_nonneg [OF sum_list_squares_nonneg]) simp
  then have "0 \<le> var / (mean + 1)\<^sup>2"
    by (rule divide_nonneg_nonneg) simp
  moreover have "coherence_score ss = max 0 (1 - var / (mean + 1)\<^sup>2)"
    using False by (simp add: coherence_score_def Let_def var_def mean_def lens_def)
  ultimately show ?thesis by simp
qed

lemma reasoning_proxy_range: "0 \<le> reasoning_proxy ss ws \<and> reasoning_proxy ss ws \<le> 1"
  by (simp add: reasoning_proxy_def Let_def)

lemma round_half_even_mono: "x \<le> y \<Longrightarrow> round_half_even x \<le> round_half_even y"
proof -
  assume xy: "x \<le> y"
  have fl: "\<lfloor>x\<rfloor> \<le> \<lfloor>y\<rfloor>" using xy by (rule floor_mono)
  show ?thesis
  proof (cases "\<lfloor>x\<rfloor> = \<lfloor>y\<rfloor>")
    case True
    then show ?thesis using xy by (auto simp: round_half_even_def Let_def)
  next
    case False
    then have "\<lfloor>x\<rfloor> + 1 \<le> \<lfloor>y\<rfloor>" using fl by simp
    moreover have "round_half_even x \<le> \<lfloor>x\<rfloor> + 1" by (simp add: round_half_even_def Let_def)
    moreover have "\<lfloor>y\<rfloor> \<le> round_half_even y" by (simp add: round_half_even_def Let_def)
    ultimately show ?thesis by linarith
  qed
qed

lemma round_half_even_of_int: "round_half_even (of_int n) = n"
  by (simp add: round_half_even_def Let_def)

lemma py_round2_mono: "x \<le> y \<Longrightarrow> py_round2 x \<le> py_round2 y"
  by (simp add: py_round2_def round_half_even_mono divide_right_mono)

lemma py_round2_range: "0 \<le> x \<Longrightarrow> x \<le> 100 \<Longrightarrow> 0 \<le> py_round2 x \<and> py_round2 x \<le> 100"
proof -
  assume a: "0 \<le> x" "x \<le> 100"
  have z: "py_round2 0 = 0" using round_half_even_of_int [of 0] by (simp add: py_round2_def)
  have h: "py_round2 100 = 100" using round_half_even_of_int [of 10000] by (simp add: py_round2_def)
  show ?thesis using py_round2_mono [OF a(1)] py_round2_mono [OF a(2)] z h by simp
qed


lemma compute_features_Inr:
  assumes "snd (compute_features orc text) = Inr (f, ss, ws, infos)"
  shows "ss = sentence_split text" and "ws = tokenize_words text"
    and "word_count f = int (length (tokenize_words text))"
    and "sentence_count f = int (length (sentence_split text))"
    and "avg_sentence_len f = avg_sentence_length (sentence_split text)"
    and "avg_word_len f = avg_word_length (tokenize_words text)"
    and "ttr f = type_token_ratio (tokenize_words text)"
    and "lex_soph f = lexical_sophistication (tokenize_words text)"
    and "coherence f = coherence_score (sentence_split text)"
    and "reasoning_proxy_feat f = reasoning_proxy (sentence_split text) (tokenize_words text)"
  using assms
  by (auto simp: compute_features_def Let_def split: option.splits prod.splits sum.splits)

lemma language_range:
  assumes "0 \<le> t" "0 \<le> l" "0 \<le> a"
  shows "0 \<le> 100 * (0.2 * min 1 (t * 1.5) + 0.3 * min 1 (l * 3) + 0.5 * min 1 (a / 5) :: rat)"
    and "100 * (0.2 * min 1 (t * 1.5) + 0.3 * min 1 (l * 3) + 0.5 * min 1 (a / 5) :: rat) \<le> 100"
  using assms by (auto simp: min_def)

lemma score_paper_range:
  assumes "0 \<le> ttr f" "0 \<le> lex_soph f" "0 \<le> avg_word_len f"
    and "0 \<le> coherence f" "coherence f \<le> 1"
    and "0 \<le> reasoning_proxy_feat f" "reasoning_proxy_feat f \<le> 1"
  shows "0 \<le> sc_language (score_paper f) \<and> sc_language (score_paper f) \<le> 100"
    and "0 \<le> sc_coherence (score_paper f) \<and> sc_coherence (score_paper f) \<le> 100"
    and "0 \<le> sc_reasoning (score_paper f) \<and> sc_reasoning (score_paper f) \<le> 100"
    and "0 \<le> sc_composite (score_paper f) \<and> sc_composite (score_paper f) \<le> 100"
proof -
  define lang where
    "lang = 100 * (0.2 * min 1 (ttr f * 1.5) + 0.3 * min 1 (lex_soph f * 3)
                   + 0.5 * min 1 (avg_word_len f / 5))"
  have lang: "0 \<le> lang" "lang \<le> 100"
    unfolding lang_def using language_range [OF assms(1-3)] by simp_all
  have coh: "0 \<le> 100 * coherence f" "100 * coherence f \<le> 100"
    using assms(4,5) by simp_all
  have rea: "0 \<le> 100 * reasoning_proxy_feat f" "100 * reasoning_proxy_feat f \<le> 100"
    using assms(6,7) by simp_all
  have comp: "0 \<le> 0.4 * lang + 0.3 * (100 * coherence f) + 0.3 * (100 * reasoning_proxy_feat f)"
    "0.4 * lang + 0.3 * (100 * coherence f) + 0.3 * (100 * reasoning_proxy_feat f) \<le> 100"
    using lang coh rea by simp_all
  show "0 \<le> sc_language (score_paper f) \<and> sc_language (score_paper f) \<le> 100"
    using py_round2_range [OF lang] by (simp add: score_paper_def Let_def lang_def)
  show "0 \<le> sc_coherence (score_paper f) \<and> sc_coherence (score_paper f) \<le> 100"
    using py_round2_range [OF coh] by (simp add: score_paper_def Let_def)
  show "0 \<le> sc_reasoning (score_paper f) \<and> sc_reasoning (score_paper f) \<le> 100"
    using py_round2_range [OF rea] by (simp add: score_paper_def Let_def)
  show "0 \<le> sc_composite (score_paper f) \<and> sc_composite (score_paper f) \<le> 100"
    using py_round2_range [OF comp] by (simp add: score_paper_def Let_def lang_def)
qed

lemma contribution_bounds:
  "fst (contribution f s) = s \<and> 0 \<le> snd (contribution f s) \<and> snd (contribution f s) \<le> 2.7
   \<and> (tokenize_words s = [] \<longrightarrow> snd (contribution f s) = 0)
   \<and> (tokenize_words s \<noteq> [] \<longrightarrow> snd (contribution f s) < 2.7)"
proof (cases "tokenize_words s = []")
  case True
  then show ?thesis by (simp add: contribution_def)
next
  case False
  define t where "t = type_token_ratio (tokenize_words s)"
  have t: "0 < t" "t \<le> 1"
    unfolding t_def using type_token_ratio_pos [OF False] type_token_ratio_range by blast+
  have teq: "of_nat (card (set (tokenize_words s))) / of_nat (length (tokenize_words s)) = t"
    using False by (simp add: t_def type_token_ratio_def)
  show ?thesis
    using False t by (simp add: contribution_def Let_def teq)
qed

subsection \<open>Score ranges\<close>

text \<open>
  Claim C1: for every input text, the scores that \<open>score_paper\<close> computes from the features
  of that text (language, coherence, reasoning and composite) all lie in [0, 100].
  The features are those \<open>compute_features\<close> returns, for any oracle that answers on
  the text and its sentences. Scores are rationals here, so they are finite by type.
\<close>

theorem score_paper_scores_in_range:
  assumes "snd (compute_features orc text) = Inr (f, ss, ws, infos)"
  shows "0 \<le> sc_language (score_paper f) \<and> sc_language (score_paper f) \<le> 100
       \<and> 0 \<le> sc_coherence (score_paper f) \<and> sc_coherence (score_paper f) \<le> 100
       \<and> 0 \<le> sc_reasoning (score_paper f) \<and> sc_reasoning (score_paper f) \<le> 100
       \<and> 0 \<le> sc_composite (score_paper f) \<and> sc_composite (score_paper f) \<le> 100"
proof -
  note cf = compute_features_Inr [OF assms]
  have "0 \<le> ttr f" "0 \<le> lex_soph f" "0 \<le> avg_word_len f"
    "0 \<le> coherence f" "coherence f \<le> 1"
    "0 \<le> reasoning_proxy_feat f" "reasoning_proxy_feat f \<le> 1"
    unfolding cf
    using type_token_ratio_range lexical_sophistication_range avg_word_length_nonneg
      coherence_score_range reasoning_proxy_range by blast+
  from score_paper_range [OF this] show ?thesis by blast
qed

theorem score_paper_scores_in_range_witness:
  "snd (compute_features (\<lambda>s. Some (0, 0)) ''It may rain. So we wait inside.'')
     = Inr (\<lparr>word_count = 7, sentence_count = 2, avg_sentence_len = 7 / 2,
              avg_word_len = 23 / 7, ttr = 1, lex_soph = 0, coherence = 80 / 81,
              reasoning_proxy_feat = 17 / 24, sentiment_polarity = 0,
              sentiment_subjectivity = 0\<rparr>,
            [''It may rain.'', ''So we wait inside.''],
            [''it'', ''may'', ''rain'', ''so'', ''we'', ''wait'', ''inside''],
            [\<lparr>si_text = ''It may rain.'', si_polarity = 0, si_subjectivity = 0\<rparr>,
             \<lparr>si_text = ''So we wait inside.'', si_polarity = 0, si_subjectivity = 0\<rparr>])
   \<and> sc_composite (score_paper \<lparr>word_count = 7, sentence_count = 2, avg_sentence_len = 7 / 2,
              avg_word_len = 23 / 7, ttr = 1, lex_soph = 0, coherence = 80 / 81,
              reasoning_proxy_feat = 17 / 24, sentiment_polarity = 0,
              sentiment_subjectivity = 0\<rparr>) \<le> 100"
proof -
  have h: "snd (compute_features (\<lambda>s. Some (0, 0)) ''It may rain. So we wait inside.'')
     = Inr (\<lparr>word_count = 7, sentence_count = 2, avg_sentence_len = 7 / 2,
              avg_word_len = 23 / 7, ttr = 1, lex_soph = 0, coherence = 80 / 81,
              reasoning_proxy_feat = 17 / 24, sentiment_polarity = 0,
              sentiment_subjectivity = 0\<rparr>,
            [''It may rain.'', ''So we wait inside.''],
            [''it'', ''may'', ''rain'', ''so'', ''we'', ''wait'', ''inside''],
            [\<lparr>si_text = ''It may rain.'', si_polarity = 0, si_subjectivity = 0\<rparr>,
             \<lparr>si_text = ''So we wait inside.'', si_polarity = 0, si_subjectivity = 0\<rparr>])"
    by code_simp
  from h score_paper_scores_in_range [OF h] show ?thesis by blast
qed

text \<open>
  Claim C3: for every input text, the computed feature vector has \<open>ttr\<close>, \<open>lex_soph\<close>,
  \<open>coherence\<close> and \<open>reasoning_proxy\<close> in [0, 1], and \<open>word_count\<close> and \<open>sentence_count\<close>
  are non-negative integers.
\<close>

theorem features_in_range:
  assumes "snd (compute_features orc text) = Inr (f, ss, ws, infos)"
  shows "0 \<le> ttr f \<and> ttr f \<le> 1 \<and> 0 \<le> lex_soph f \<and> lex_soph f \<le> 1
       \<and> 0 \<le> coherence f \<and> coherence f \<le> 1
       \<and> 0 \<le> reasoning_proxy_feat f \<and> reasoning_proxy_feat f \<le> 1
       \<and> 0 \<le> word_count f \<and> 0 \<le> sentence_count f"
  unfolding compute_features_Inr [OF assms]
  using type_token_ratio_range lexical_sophistication_range
    coherence_score_range reasoning_proxy_range by simp

theorem features_in_range_witness:
  "snd (compute_features (\<lambda>s. Some (0, 0)) ''It may rain. So we wait inside.'')
     = Inr (\<lparr>word_count = 7, sentence_count = 2, avg_sentence_len = 7 / 2,
              avg_word_len = 23 / 7, ttr = 1, lex_soph = 0, coherence = 80 / 81,
              reasoning_proxy_feat = 17 / 24, sentiment_polarity = 0,
              sentiment_subjectivity = 0\<rparr>,
            [''It may rain.'', ''So we wait inside.''],
            [''it'', ''may'', ''rain'', ''so'', ''we'', ''wait'', ''inside''],
            [\<lparr>si_text = ''It may rain.'', si_polarity = 0, si_subjectivity = 0\<rparr>,
             \<lparr>si_text = ''So we wait inside.'', si_polarity = 0, si_subjectivity = 0\<rparr>])
   \<and> coherence \<lparr>word_count = 7, sentence_count = 2, avg_sentence_len = 7 / 2,
              avg_word_len = 23 / 7, ttr = 1, lex_soph = 0, coherence = 80 / 81,
              reasoning_proxy_feat = 17 / 24, sentiment_polarity = 0,
              sentiment_subjectivity = 0\<rparr> \<le> 1"
proof -
  have h: "snd (compute_features (\<lambda>s. Some (0, 0)) ''It may rain. So we wait inside.'')
     = Inr (\<lparr>word_count = 7, sentence_count = 2, avg_sentence_len = 7 / 2,
              avg_word_len = 23 / 7, ttr = 1, lex_soph = 0, coherence = 80 / 81,
              reasoning_proxy_feat = 17 / 24, sentiment_polarity = 0,
              sentiment_subjectivity = 0\<rparr>,
            [''It may rain.'', ''So we wait inside.''],
            [''it'', ''may'', ''rain'', ''so'', ''we'', ''wait'', ''inside''],
            [\<lparr>si_text = ''It may rain.'', si_polarity = 0, si_subjectivity = 0\<rparr>,
             \<lparr>si_text = ''So we wait inside.'', si_polarity = 0, si_subjectivity = 0\<rparr>])"
    by code_simp
  from h features_in_range [OF h] show ?thesis by blast
qed

subsection \<open>Sentence penalties\<close>

text \<open>
  Claim C10: for every sentence and every document-level feature vector, the penalty
  that \<open>sentence_contributions\<close> assigns lies in [0, 2.7]; a sentence with no word
  token gets exactly 0, and a sentence with at least one word token gets strictly less
  than 2.7, its local type-token ratio being positive.
\<close>

theorem penalty_bounds:
  "\<forall>(s, p) \<in> set (sentence_contributions sentences f).
     0 \<le> p \<and> p \<le> 2.7 \<and> (tokenize_words s = [] \<longrightarrow> p = 0) \<and> (tokenize_words s \<noteq> [] \<longrightarrow> p < 2.7)"
proof -
  have "set (sentence_contributions sentences f) = contribution f ` set sentences"
    by (simp add: sentence_contributions_def sort_penalty_desc_def)
  then show ?thesis
    using contribution_bounds [of f] by (auto simp: split_beta)
qed

theorem penalty_bounds_witness:
  "(''the the'', 1) \<in> set (sentence_contributions [''the the'', ''...'', ''So it is'']
        \<lparr>word_count = 7, sentence_count = 2, avg_sentence_len = 7 / 2,
         avg_word_len = 23 / 7, ttr = 1, lex_soph = 0, coherence = 80 / 81,
         reasoning_proxy_feat = 17 / 24, sentiment_polarity = 0,
         sentiment_subjectivity = 0\<rparr>)
   \<and> tokenize_words ''the the'' \<noteq> [] \<and> (1 :: rat) < 2.7"
proof -
  have m: "sentence_contributions [''the the'', ''...'', ''So it is'']
        \<lparr>word_count = 7, sentence_count = 2, avg_sentence_len = 7 / 2,
         avg_word_len = 23 / 7, ttr = 1, lex_soph = 0, coherence = 80 / 81,
         reasoning_proxy_feat = 17 / 24, sentiment_polarity = 0,
         sentiment_subjectivity = 0\<rparr>
      = [(''the the'', 1), (''...'', 0), (''So it is'', 0)]"
    by code_simp
  have tw: "tokenize_words ''the the'' = [''the'', ''the'']"
    by code_simp
  have mem: "(''the the'', 1) \<in> set (sentence_contributions [''the the'', ''...'', ''So it is'']
        \<lparr>word_count = 7, sentence_count = 2, avg_sentence_len = 7 / 2,
         avg_word_len = 23 / 7, ttr = 1, lex_soph = 0, coherence = 80 / 81,
         reasoning_proxy_feat = 17 / 24, sentiment_polarity = 0,
         sentiment_subjectivity = 0\<rparr>)"
    unfolding m by simp
  have ne: "tokenize_words ''the the'' \<noteq> []"
    unfolding tw by simp
  from bspec [OF penalty_bounds mem] ne have "(1 :: rat) < 2.7"
    unfolding prod.case by blast
  with mem ne show ?thesis by blast
qed

end
